theory Spec2Isabelle
  imports Main "HOL-Library.Word"
begin

section \<open>The generated binding of the Persistent interface (persistent.capnp.h)\<close>

text \<open>
  The header declares one interface, \<open>Persistent<SturdyRef, Owner>\<close>, with the single
  method \<open>save\<close> (ordinal 0) and the two message structs \<open>SaveParams\<close> and
  \<open>SaveResults\<close>. The C++ integer types are machine words.
\<close>

type_synonym uint64_t = "64 word"
type_synonym uint16_t = "16 word"

subsection \<open>Capability dispatch\<close>

text \<open>
  Modelled from the spec: the failures of section 7 that the binding reports (the exception
  type of the runtime is not among the sources). A dispatch miss carries the interface name
  and the numeric ids; the failure of a default method body also names the method.
  \<open>ApplicationError\<close> is the failure of a handler.
\<close>

datatype exception =
    UnimplementedInterface string uint64_t
  | UnimplementedMethod string "string option" uint64_t uint16_t
  | ApplicationError string

text \<open>
  Modelled from the spec: \<open>kj::Promise<void>\<close>, the completion signal of section 4.3, read
  by its outcome: fulfilled, or rejected with an exception.
\<close>

datatype promise = Fulfilled | Rejected exception

text \<open>
  Modelled from the spec: \<open>Capability::Server::DispatchCallResult\<close> (capnp/capability.h is
  not among the sources), what a dispatch returns. The header builds it by aggregate
  initialisation as \<open>{save(...), false, false}\<close>: the promise first, then the flag of a
  streaming call and the flag that allows cancellation.
\<close>

record DispatchCallResult =
  promise :: promise
  isStreaming :: bool
  allowCancellation :: bool

text \<open>
  Modelled from the spec: the three overloads of \<open>Capability::Server::internalUnimplemented\<close>
  (declared in capnp/capability.h, which is not among the sources). The spec's sections 4.3
  and 7 fix the failure each one reports: an unknown interface id fails with
  \<open>UnimplementedInterface\<close> carrying the interface name and the requested id, an unknown
  method id fails with \<open>UnimplementedMethod\<close>, and a default method body returns a
  well-formed \<open>UnimplementedMethod\<close> failure. The spec does not say which flags accompany a
  failed dispatch, so the two overloads that return a \<open>DispatchCallResult\<close> take them as
  the argument \<open>fl\<close>.
\<close>

definition internalUnimplemented_interface ::
    "bool \<times> bool \<Rightarrow> string \<Rightarrow> uint64_t \<Rightarrow> DispatchCallResult" where
  "internalUnimplemented_interface fl actualInterfaceName requestedTypeId =
     \<lparr>promise = Rejected (UnimplementedInterface actualInterfaceName requestedTypeId),
      isStreaming = fst fl, allowCancellation = snd fl\<rparr>"

definition internalUnimplemented_method ::
    "bool \<times> bool \<Rightarrow> string \<Rightarrow> uint64_t \<Rightarrow> uint16_t \<Rightarrow> DispatchCallResult" where
  "internalUnimplemented_method fl interfaceName typeId methodId =
     \<lparr>promise = Rejected (UnimplementedMethod interfaceName None typeId methodId),
      isStreaming = fst fl, allowCancellation = snd fl\<rparr>"

definition internalUnimplemented_named ::
    "string \<Rightarrow> string \<Rightarrow> uint64_t \<Rightarrow> uint16_t \<Rightarrow> promise" where
  "internalUnimplemented_named interfaceName methodName typeId methodId =
     Rejected (UnimplementedMethod interfaceName (Some methodName) typeId methodId)"

text \<open>
  Modelled from the spec: the call context of section 3 (capnp/capability.h).
  \<open>dispatchCall\<close> receives the untyped \<open>CallContext<AnyPointer, AnyPointer>\<close>; the
  handler receives \<open>SaveContext\<close>, the header's name for
  \<open>CallContext<SaveParams, SaveResults>\<close>. Both are views of one call, the hook \<open>'h\<close>.
\<close>

datatype 'h CallContext = CallContext 'h

datatype 'h SaveContext = SaveContext 'h

text \<open>
  Modelled from the spec: \<open>internalGetTypedContext\<close> (capnp/capability.h) hands the same
  call to the handler under its strongly-typed view (section 4.3).
\<close>

fun internalGetTypedContext :: "'h CallContext \<Rightarrow> 'h SaveContext" where
  "internalGetTypedContext (CallContext hook) = SaveContext hook"

text \<open>
  The server object. \<open>save\<close> is virtual: the record field is the entry a subclass may
  override. A handler may change the server's own state \<open>'s\<close>, which is passed in and
  returned.
\<close>

record ('h, 's) Server =
  save :: "'h SaveContext \<Rightarrow> 's \<Rightarrow> promise \<times> 's"

text \<open>\<open>Persistent::Server::save\<close>, the body a subclass inherits when it does not override.\<close>

definition Server_save :: "'h SaveContext \<Rightarrow> 's \<Rightarrow> promise \<times> 's" where
  "Server_save context this =
     (internalUnimplemented_named
        ''capnp/persistent.capnp:Persistent'' ''save''
        0xc8cb212fcd9f5691 0, this)"

text \<open>A server whose \<open>save\<close> is the inherited body.\<close>

definition Server_base :: "('h, 's) Server" where
  "Server_base = \<lparr>save = Server_save\<rparr>"

text \<open>\<open>Persistent::Server::dispatchCallInternal\<close>: the switch on the method id.\<close>

definition dispatchCallInternal ::
    "bool \<times> bool \<Rightarrow> ('h, 's) Server \<Rightarrow> uint16_t \<Rightarrow> 'h CallContext \<Rightarrow> 's
      \<Rightarrow> DispatchCallResult \<times> 's" where
  "dispatchCallInternal fl server methodId context this =
     (if methodId = 0 then
        (case save server (internalGetTypedContext context) this of
           (p, this') \<Rightarrow>
             (\<lparr>promise = p, isStreaming = False, allowCancellation = False\<rparr>, this'))
      else
        (internalUnimplemented_method fl
           ''capnp/persistent.capnp:Persistent''
           0xc8cb212fcd9f5691 methodId, this))"

text \<open>\<open>Persistent::Server::dispatchCall\<close>: the switch on the interface id.\<close>

definition dispatchCall ::
    "bool \<times> bool \<Rightarrow> ('h, 's) Server \<Rightarrow> uint64_t \<Rightarrow> uint16_t \<Rightarrow> 'h CallContext \<Rightarrow> 's
      \<Rightarrow> DispatchCallResult \<times> 's" where
  "dispatchCall fl server interfaceId methodId context this =
     (if interfaceId = 0xc8cb212fcd9f5691 then
        dispatchCallInternal fl server methodId context this
      else
        (internalUnimplemented_interface fl
           ''capnp/persistent.capnp:Persistent'' interfaceId, this))"

subsection \<open>The client\<close>

text \<open>
  Modelled from the spec: \<open>Capability::Client::newCall\<close> (capnp/capability.h) starts a
  request addressed by the wire-level dispatch keys of section 6, a 64-bit interface id and
  a 16-bit method id. The request records the client it is sent to, the keys, the size hint
  and the call hints as they were passed. The client \<open>'k\<close> and the message size \<open>'m\<close>
  are left open; \<open>{false}\<close> is the braced initialiser of the hints.
\<close>

record ('k, 'm) Request =
  target :: 'k
  interfaceId :: uint64_t
  methodId :: uint16_t
  sizeHint :: "'m option"
  hints :: "bool list"

definition newCall ::
    "'k \<Rightarrow> uint64_t \<Rightarrow> uint16_t \<Rightarrow> 'm option \<Rightarrow> bool list \<Rightarrow> ('k, 'm) Request" where
  "newCall client iid mid hint hs =
     \<lparr>target = client, interfaceId = iid, methodId = mid, sizeHint = hint, hints = hs\<rparr>"

text \<open>\<open>Persistent::Client::saveRequest\<close>.\<close>

definition saveRequest :: "'k \<Rightarrow> 'm option \<Rightarrow> ('k, 'm) Request" where
  "saveRequest client sizeHint' =
     newCall client 0xc8cb212fcd9f5691 0 sizeHint' [False]"

subsection \<open>Struct layout\<close>

text \<open>
  Modelled from the spec: the macro \<open>CAPNP_DECLARE_STRUCT_HEADER(id, dataWordSize,
  pointerCount)\<close> (capnp/generated-header-support.h is not among the sources). It declares
  the type id and the size of a struct, which by section 3 is a data section of so many
  8-byte words and a pointer section of so many pointer slots. The header uses it as
  \<open>(f76fba59183073a5, 0, 1)\<close> for \<open>SaveParams\<close> and as \<open>(b76848c18c40efbf, 0, 1)\<close> for
  \<open>SaveResults\<close>.
\<close>

record StructSize =
  dataWords :: nat
  pointerCount :: nat

definition SaveParams_typeId :: uint64_t where
  "SaveParams_typeId = 0xf76fba59183073a5"

definition SaveParams_structSize :: StructSize where
  "SaveParams_structSize = \<lparr>dataWords = 0, pointerCount = 1\<rparr>"

definition SaveResults_typeId :: uint64_t where
  "SaveResults_typeId = 0xb76848c18c40efbf"

definition SaveResults_structSize :: StructSize where
  "SaveResults_structSize = \<lparr>dataWords = 0, pointerCount = 1\<rparr>"

text \<open>
  Modelled from the spec: the unit \<open>POINTERS\<close> of a pointer index (capnp/common.h is not
  among the sources); an index counts the 8-byte slots of the pointer section (section 3).
  The accessors write the index of their field as \<open>bounded<0>() * POINTERS\<close>, that is
  \<open>0 * POINTERS\<close>.
\<close>

definition POINTERS :: nat where
  "POINTERS = 1"

subsection \<open>The message arena and the pointer section\<close>

text \<open>
  Modelled from the spec: the layout runtime (capnp/layout.h, capnp/pointer-helpers.h and
  capnp/orphan.h are not among the sources), after sections 3 and 4.1.

  A segment holds the objects allocated so far; an object is addressed by its position.
  A pointer slot is null or refers to an object of the segment. A struct is its pointer
  section (both generated structs have no data words) together with the segment it lives
  in. The payload type \<open>'a\<close> is what a pointer field of the struct refers to.

  Two failures are written out. \<open>OutOfBoundsAccess\<close> is an access through a Builder to
  a slot outside the pointer section of the struct, to which the spec gives no meaning.
  \<open>DecodeOutOfBounds\<close> is the reported failure of section 7: a pointer whose target lies
  outside the segment.
\<close>

datatype pointer = NullPointer | ObjectAt nat

datatype fault = OutOfBoundsAccess | DecodeOutOfBounds

record 'a StructReader =
  rsegment :: "'a list"
  rpointers :: "pointer list"

record 'a StructBuilder =
  bsegment :: "'a list"
  bpointers :: "pointer list"

text \<open>
  Modelled from the spec: \<open>StructBuilder::asReader\<close> (section 4.2), the same segment and
  the same pointer section, read-only.
\<close>

definition StructBuilder_asReader :: "'a StructBuilder \<Rightarrow> 'a StructReader" where
  "StructBuilder_asReader b = \<lparr>rsegment = bsegment b, rpointers = bpointers b\<rparr>"

text \<open>
  Modelled from the spec: a freshly allocated struct of a given size, every pointer slot
  null (section 4.1, a fresh zero-valued instance).
\<close>

definition initStruct :: "StructSize \<Rightarrow> 'a StructBuilder" where
  "initStruct size' = \<lparr>bsegment = [], bpointers = replicate (pointerCount size') NullPointer\<rparr>"

text \<open>
  Modelled from the spec: \<open>StructReader::getPointerField\<close> and \<open>PointerReader::isNull\<close>.
  By the versioning rule of section 4.1 a field beyond the stored bounds of the struct reads
  as the null pointer; it is never dereferenced.
\<close>

record 'a PointerReader =
  pr_segment :: "'a list"
  pr_pointer :: pointer

definition StructReader_getPointerField :: "'a StructReader \<Rightarrow> nat \<Rightarrow> 'a PointerReader" where
  "StructReader_getPointerField r ptrIndex =
     (if ptrIndex < length (rpointers r)
      then \<lparr>pr_segment = rsegment r, pr_pointer = rpointers r ! ptrIndex\<rparr>
      else \<lparr>pr_segment = [], pr_pointer = NullPointer\<rparr>)"

definition PointerReader_isNull :: "'a PointerReader \<Rightarrow> bool" where
  "PointerReader_isNull p = (pr_pointer p = NullPointer)"

text \<open>
  Modelled from the spec: \<open>StructBuilder::getPointerField\<close> and the \<open>PointerBuilder\<close> it
  returns, the location of a slot of the struct. Reading or writing through it fails with
  \<open>OutOfBoundsAccess\<close> when the slot is not part of the pointer section.
\<close>

record 'a PointerBuilder =
  pb_struct :: "'a StructBuilder"
  pb_index :: nat

definition StructBuilder_getPointerField :: "'a StructBuilder \<Rightarrow> nat \<Rightarrow> 'a PointerBuilder" where
  "StructBuilder_getPointerField b ptrIndex = \<lparr>pb_struct = b, pb_index = ptrIndex\<rparr>"

definition PointerBuilder_read :: "'a PointerBuilder \<Rightarrow> fault + pointer" where
  "PointerBuilder_read p =
     (if pb_index p < length (bpointers (pb_struct p))
      then Inr (bpointers (pb_struct p) ! pb_index p)
      else Inl OutOfBoundsAccess)"

definition PointerBuilder_write ::
    "'a PointerBuilder \<Rightarrow> 'a list \<Rightarrow> pointer \<Rightarrow> fault + 'a StructBuilder" where
  "PointerBuilder_write p seg q =
     (if pb_index p < length (bpointers (pb_struct p))
      then Inr \<lparr>bsegment = seg, bpointers = (bpointers (pb_struct p))[pb_index p := q]\<rparr>
      else Inl OutOfBoundsAccess)"

definition PointerBuilder_isNull :: "'a PointerBuilder \<Rightarrow> fault + bool" where
  "PointerBuilder_isNull p =
     (case PointerBuilder_read p of Inl f \<Rightarrow> Inl f | Inr q \<Rightarrow> Inr (q = NullPointer))"

text \<open>
  Modelled from the spec: resolving a pointer (section 4.1, \<open>get\<close>). Null gives the schema
  default; a target is checked against the size of the segment before it is read.
\<close>

fun resolve :: "'a \<Rightarrow> 'a list \<Rightarrow> pointer \<Rightarrow> fault + 'a" where
  "resolve dflt seg NullPointer = Inr dflt"
| "resolve dflt seg (ObjectAt n) =
     (if n < length seg then Inr (seg ! n) else Inl DecodeOutOfBounds)"

text \<open>
  Modelled from the spec: \<open>PointerHelpers<T>\<close> (capnp/pointer-helpers.h). The record is
  what the type bound to a generic parameter contributes to the accessors: the schema
  default that \<open>get\<close> returns for a null pointer and the zero-valued instances that
  \<open>init\<close> allocates. \<open>get\<close> resolves the pointer of the slot.
\<close>

record 'a PointerHelpers =
  schemaDefault :: 'a
  zeroValue :: 'a
  zeroValueOfSize :: "32 word \<Rightarrow> 'a"

definition PointerHelpers_get :: "'a PointerHelpers \<Rightarrow> 'a PointerReader \<Rightarrow> fault + 'a" where
  "PointerHelpers_get ph p = resolve (schemaDefault ph) (pr_segment p) (pr_pointer p)"

definition PointerHelpers_getBuilder ::
    "'a PointerHelpers \<Rightarrow> 'a PointerBuilder \<Rightarrow> fault + 'a" where
  "PointerHelpers_getBuilder ph p =
     (case PointerBuilder_read p of
        Inl f \<Rightarrow> Inl f
      | Inr q \<Rightarrow> resolve (schemaDefault ph) (bsegment (pb_struct p)) q)"

text \<open>
  Modelled from the spec: \<open>PointerHelpers<T>::set\<close> and \<open>init\<close> (section 4.1). \<open>set\<close>
  allocates storage for the value at the end of the segment and rewrites the pointer to
  refer to it; what the slot referred to before stays in the segment. \<open>init\<close> does the
  same with a fresh zero-valued instance.
\<close>

definition PointerHelpers_set :: "'a PointerBuilder \<Rightarrow> 'a \<Rightarrow> fault + 'a StructBuilder" where
  "PointerHelpers_set p v =
     PointerBuilder_write p (bsegment (pb_struct p) @ [v])
       (ObjectAt (length (bsegment (pb_struct p))))"

definition PointerHelpers_init ::
    "'a PointerHelpers \<Rightarrow> 'a PointerBuilder \<Rightarrow> fault + 'a StructBuilder" where
  "PointerHelpers_init ph p = PointerHelpers_set p (zeroValue ph)"

definition PointerHelpers_initSized ::
    "'a PointerHelpers \<Rightarrow> 'a PointerBuilder \<Rightarrow> 32 word \<Rightarrow> fault + 'a StructBuilder" where
  "PointerHelpers_initSized ph p size' = PointerHelpers_set p (zeroValueOfSize ph size')"

text \<open>
  Modelled from the spec: \<open>Orphan<T>\<close> and \<open>PointerHelpers<T>::adopt\<close> and \<open>disown\<close>
  (section 4.1; capnp/orphan.h is not among the sources). An orphan holds the location of
  a detached object. \<open>disown\<close> hands the pointer of the slot to an orphan and leaves the
  slot null; \<open>adopt\<close> stores the pointer of an orphan in the slot. Neither allocates: the
  segment stays as it is.
\<close>

datatype Orphan = Orphan pointer

fun PointerHelpers_adopt :: "'a PointerBuilder \<Rightarrow> Orphan \<Rightarrow> fault + 'a StructBuilder" where
  "PointerHelpers_adopt p (Orphan q) = PointerBuilder_write p (bsegment (pb_struct p)) q"

definition PointerHelpers_disown ::
    "'a PointerBuilder \<Rightarrow> fault + (Orphan \<times> 'a StructBuilder)" where
  "PointerHelpers_disown p =
     (case PointerBuilder_read p of
        Inl f \<Rightarrow> Inl f
      | Inr q \<Rightarrow>
          (case PointerBuilder_write p (bsegment (pb_struct p)) NullPointer of
             Inl f \<Rightarrow> Inl f
           | Inr b' \<Rightarrow> Inr (Orphan q, b')))"

text \<open>
  Modelled from the spec: \<open>AnyPointer::Pipeline\<close> (capnp/any.h is not among the sources),
  the promise of a pointer, as the path of operations to apply to the result of a pending
  call (section 4.2). \<open>getPointerField\<close> extends the path by one step.
\<close>

datatype PipelineOp = Noop | GetPointerField uint16_t

datatype 'h AnyPointer_Pipeline =
  AnyPointer_Pipeline (pipeline_hook: 'h) (pipeline_ops: "PipelineOp list")

fun Pipeline_getPointerField :: "'h AnyPointer_Pipeline \<Rightarrow> uint16_t \<Rightarrow> 'h AnyPointer_Pipeline" where
  "Pipeline_getPointerField (AnyPointer_Pipeline hook ops) pointerIndex =
     AnyPointer_Pipeline hook (ops @ [GetPointerField pointerIndex])"

subsection \<open>SaveParams: Reader, Builder and Pipeline\<close>

text \<open>
  The three views of \<open>SaveParams\<close>. The type parameters \<open>'s\<close> and \<open>'o\<close> stand for the
  template parameters \<open>SturdyRef\<close> and \<open>Owner\<close> of the enclosing \<open>Persistent\<close>; a view
  stores only the untyped \<open>StructReader\<close>, \<open>StructBuilder\<close> or typeless pipeline.
\<close>

datatype ('s, 'o, 'a) SaveParams_Reader = SaveParams_Reader (sp_reader: "'a StructReader")

datatype ('s, 'o, 'a) SaveParams_Builder = SaveParams_Builder (sp_builder: "'a StructBuilder")

datatype ('s, 'o, 'h) SaveParams_Pipeline = SaveParams_Pipeline (sp_typeless: "'h AnyPointer_Pipeline")

text \<open>\<open>SaveParams::Builder::asReader\<close>, by \<open>operator Reader\<close>.\<close>

definition SaveParams_Builder_asReader ::
    "('s, 'o, 'a) SaveParams_Builder \<Rightarrow> ('s, 'o, 'a) SaveParams_Reader" where
  "SaveParams_Builder_asReader b = SaveParams_Reader (StructBuilder_asReader (sp_builder b))"

text \<open>\<open>asPersistentGeneric<SturdyRef2, Owner2>\<close> on the Reader and on the Builder.\<close>

definition SaveParams_Reader_asPersistentGeneric ::
    "('s, 'o, 'a) SaveParams_Reader \<Rightarrow> ('s2, 'o2, 'a) SaveParams_Reader" where
  "SaveParams_Reader_asPersistentGeneric r = SaveParams_Reader (sp_reader r)"

definition SaveParams_Builder_asPersistentGeneric ::
    "('s, 'o, 'a) SaveParams_Builder \<Rightarrow> ('s2, 'o2, 'a) SaveParams_Builder" where
  "SaveParams_Builder_asPersistentGeneric b = SaveParams_Builder (sp_builder b)"

text \<open>
  The field accessors, in the order of the header. \<open>ph\<close> is \<open>PointerHelpers<Owner>\<close>.
  A Builder accessor that changes the message returns the Builder over the changed struct;
  it fails as the operation on the slot does.
\<close>

definition SaveParams_Reader_hasSealFor :: "('s, 'o, 'a) SaveParams_Reader \<Rightarrow> bool" where
  "SaveParams_Reader_hasSealFor r =
     (\<not> PointerReader_isNull (StructReader_getPointerField (sp_reader r) (0 * POINTERS)))"

definition SaveParams_Builder_hasSealFor :: "('s, 'o, 'a) SaveParams_Builder \<Rightarrow> fault + bool" where
  "SaveParams_Builder_hasSealFor b =
     (case PointerBuilder_isNull (StructBuilder_getPointerField (sp_builder b) (0 * POINTERS)) of
        Inl f \<Rightarrow> Inl f
      | Inr n \<Rightarrow> Inr (\<not> n))"

definition SaveParams_Reader_getSealFor ::
    "'a PointerHelpers \<Rightarrow> ('s, 'o, 'a) SaveParams_Reader \<Rightarrow> fault + 'a" where
  "SaveParams_Reader_getSealFor ph r =
     PointerHelpers_get ph (StructReader_getPointerField (sp_reader r) (0 * POINTERS))"

definition SaveParams_Builder_getSealFor ::
    "'a PointerHelpers \<Rightarrow> ('s, 'o, 'a) SaveParams_Builder \<Rightarrow> fault + 'a" where
  "SaveParams_Builder_getSealFor ph b =
     PointerHelpers_getBuilder ph (StructBuilder_getPointerField (sp_builder b) (0 * POINTERS))"

definition SaveParams_Pipeline_getSealFor ::
    "('s, 'o, 'h) SaveParams_Pipeline \<Rightarrow> 'h AnyPointer_Pipeline" where
  "SaveParams_Pipeline_getSealFor p = Pipeline_getPointerField (sp_typeless p) 0"

definition SaveParams_Builder_setSealFor ::
    "('s, 'o, 'a) SaveParams_Builder \<Rightarrow> 'a \<Rightarrow> fault + ('s, 'o, 'a) SaveParams_Builder" where
  "SaveParams_Builder_setSealFor b value' =
     map_sum id SaveParams_Builder
       (PointerHelpers_set (StructBuilder_getPointerField (sp_builder b) (0 * POINTERS)) value')"

definition SaveParams_Builder_initSealFor ::
    "'a PointerHelpers \<Rightarrow> ('s, 'o, 'a) SaveParams_Builder \<Rightarrow> fault + ('s, 'o, 'a) SaveParams_Builder" where
  "SaveParams_Builder_initSealFor ph b =
     map_sum id SaveParams_Builder
       (PointerHelpers_init ph (StructBuilder_getPointerField (sp_builder b) (0 * POINTERS)))"

definition SaveParams_Builder_initSealFor_size ::
    "'a PointerHelpers \<Rightarrow> ('s, 'o, 'a) SaveParams_Builder \<Rightarrow> 32 word
      \<Rightarrow> fault + ('s, 'o, 'a) SaveParams_Builder" where
  "SaveParams_Builder_initSealFor_size ph b size' =
     map_sum id SaveParams_Builder
       (PointerHelpers_initSized ph
          (StructBuilder_getPointerField (sp_builder b) (0 * POINTERS)) size')"

definition SaveParams_Builder_adoptSealFor ::
    "('s, 'o, 'a) SaveParams_Builder \<Rightarrow> Orphan \<Rightarrow> fault + ('s, 'o, 'a) SaveParams_Builder" where
  "SaveParams_Builder_adoptSealFor b value' =
     map_sum id SaveParams_Builder
       (PointerHelpers_adopt (StructBuilder_getPointerField (sp_builder b) (0 * POINTERS)) value')"

definition SaveParams_Builder_disownSealFor ::
    "('s, 'o, 'a) SaveParams_Builder \<Rightarrow> fault + (Orphan \<times> ('s, 'o, 'a) SaveParams_Builder)" where
  "SaveParams_Builder_disownSealFor b =
     map_sum id (map_prod id SaveParams_Builder)
       (PointerHelpers_disown (StructBuilder_getPointerField (sp_builder b) (0 * POINTERS)))"

subsection \<open>SaveResults: Reader, Builder and Pipeline\<close>

text \<open>
  The three views of \<open>SaveResults\<close>. The type parameters \<open>'s\<close> and \<open>'o\<close> stand for the
  template parameters \<open>SturdyRef\<close> and \<open>Owner\<close> of the enclosing \<open>Persistent\<close>; a view
  stores only the untyped \<open>StructReader\<close>, \<open>StructBuilder\<close> or typeless pipeline.
\<close>

datatype ('s, 'o, 'a) SaveResults_Reader = SaveResults_Reader (sr_reader: "'a StructReader")

datatype ('s, 'o, 'a) SaveResults_Builder = SaveResults_Builder (sr_builder: "'a StructBuilder")

datatype ('s, 'o, 'h) SaveResults_Pipeline = SaveResults_Pipeline (sr_typeless: "'h AnyPointer_Pipeline")

text \<open>\<open>SaveResults::Builder::asReader\<close>, by \<open>operator Reader\<close>.\<close>

definition SaveResults_Builder_asReader ::
    "('s, 'o, 'a) SaveResults_Builder \<Rightarrow> ('s, 'o, 'a) SaveResults_Reader" where
  "SaveResults_Builder_asReader b = SaveResults_Reader (StructBuilder_asReader (sr_builder b))"

text \<open>\<open>asPersistentGeneric<SturdyRef2, Owner2>\<close> on the Reader and on the Builder.\<close>

definition SaveResults_Reader_asPersistentGeneric ::
    "('s, 'o, 'a) SaveResults_Reader \<Rightarrow> ('s2, 'o2, 'a) SaveResults_Reader" where
  "SaveResults_Reader_asPersistentGeneric r = SaveResults_Reader (sr_reader r)"

definition SaveResults_Builder_asPersistentGeneric ::
    "('s, 'o, 'a) SaveResults_Builder \<Rightarrow> ('s2, 'o2, 'a) SaveResults_Builder" where
  "SaveResults_Builder_asPersistentGeneric b = SaveResults_Builder (sr_builder b)"

text \<open>
  The field accessors, in the order of the header. \<open>ph\<close> is \<open>PointerHelpers<SturdyRef>\<close>.
  A Builder accessor that changes the message returns the Builder over the changed struct;
  it fails as the operation on the slot does.
\<close>

definition SaveResults_Reader_hasSturdyRef :: "('s, 'o, 'a) SaveResults_Reader \<Rightarrow> bool" where
  "SaveResults_Reader_hasSturdyRef r =
     (\<not> PointerReader_isNull (StructReader_getPointerField (sr_reader r) (0 * POINTERS)))"

definition SaveResults_Builder_hasSturdyRef :: "('s, 'o, 'a) SaveResults_Builder \<Rightarrow> fault + bool" where
  "SaveResults_Builder_hasSturdyRef b =
     (case PointerBuilder_isNull (StructBuilder_getPointerField (sr_builder b) (0 * POINTERS)) of
        Inl f \<Rightarrow> Inl f
      | Inr n \<Rightarrow> Inr (\<not> n))"

definition SaveResults_Reader_getSturdyRef ::
    "'a PointerHelpers \<Rightarrow> ('s, 'o, 'a) SaveResults_Reader \<Rightarrow> fault + 'a" where
  "SaveResults_Reader_getSturdyRef ph r =
     PointerHelpers_get ph (StructReader_getPointerField (sr_reader r) (0 * POINTERS))"

definition SaveResults_Builder_getSturdyRef ::
    "'a PointerHelpers \<Rightarrow> ('s, 'o, 'a) SaveResults_Builder \<Rightarrow> fault + 'a" where
  "SaveResults_Builder_getSturdyRef ph b =
     PointerHelpers_getBuilder ph (StructBuilder_getPointerField (sr_builder b) (0 * POINTERS))"

definition SaveResults_Pipeline_getSturdyRef ::
    "('s, 'o, 'h) SaveResults_Pipeline \<Rightarrow> 'h AnyPointer_Pipeline" where
  "SaveResults_Pipeline_getSturdyRef p = Pipeline_getPointerField (sr_typeless p) 0"

definition SaveResults_Builder_setSturdyRef ::
    "('s, 'o, 'a) SaveResults_Builder \<Rightarrow> 'a \<Rightarrow> fault + ('s, 'o, 'a) SaveResults_Builder" where
  "SaveResults_Builder_setSturdyRef b value' =
     map_sum id SaveResults_Builder
       (PointerHelpers_set (StructBuilder_getPointerField (sr_builder b) (0 * POINTERS)) value')"

definition SaveResults_Builder_initSturdyRef ::
    "'a PointerHelpers \<Rightarrow> ('s, 'o, 'a) SaveResults_Builder \<Rightarrow> fault + ('s, 'o, 'a) SaveResults_Builder" where
  "SaveResults_Builder_initSturdyRef ph b =
     map_sum id SaveResults_Builder
       (PointerHelpers_init ph (StructBuilder_getPointerField (sr_builder b) (0 * POINTERS)))"

definition SaveResults_Builder_initSturdyRef_size ::
    "'a PointerHelpers \<Rightarrow> ('s, 'o, 'a) SaveResults_Builder \<Rightarrow> 32 word
      \<Rightarrow> fault + ('s, 'o, 'a) SaveResults_Builder" where
  "SaveResults_Builder_initSturdyRef_size ph b size' =
     map_sum id SaveResults_Builder
       (PointerHelpers_initSized ph
          (StructBuilder_getPointerField (sr_builder b) (0 * POINTERS)) size')"

definition SaveResults_Builder_adoptSturdyRef ::
    "('s, 'o, 'a) SaveResults_Builder \<Rightarrow> Orphan \<Rightarrow> fault + ('s, 'o, 'a) SaveResults_Builder" where
  "SaveResults_Builder_adoptSturdyRef b value' =
     map_sum id SaveResults_Builder
       (PointerHelpers_adopt (StructBuilder_getPointerField (sr_builder b) (0 * POINTERS)) value')"

definition SaveResults_Builder_disownSturdyRef ::
    "('s, 'o, 'a) SaveResults_Builder \<Rightarrow> fault + (Orphan \<times> ('s, 'o, 'a) SaveResults_Builder)" where
  "SaveResults_Builder_disownSturdyRef b =
     map_sum id (map_prod id SaveResults_Builder)
       (PointerHelpers_disown (StructBuilder_getPointerField (sr_builder b) (0 * POINTERS)))"

subsection \<open>The pointer index each generated accessor passes\<close>

text \<open>
  The header generates, for the one field of each struct, \<open>has\<close> and \<open>get\<close> on the
  Reader, \<open>has\<close>, \<open>get\<close>, \<open>set\<close>, \<open>init\<close>, \<open>init(size)\<close>, \<open>adopt\<close> and
  \<open>disown\<close> on the Builder, and \<open>get\<close> on the Pipeline. The table gives the index
  expression each of them passes to \<open>getPointerField\<close>, in the order of the header, and
  \<open>None\<close> for an accessor the header does not generate.
\<close>

datatype struct_id = S_SaveParams | S_SaveResults

datatype view_id = V_Reader | V_Builder | V_Pipeline

datatype accessor_id = A_has | A_get | A_set | A_init | A_init_size | A_adopt | A_disown

fun declaredSize :: "struct_id \<Rightarrow> StructSize" where
  "declaredSize S_SaveParams = SaveParams_structSize"
| "declaredSize S_SaveResults = SaveResults_structSize"

fun accessorPointerIndex :: "struct_id \<Rightarrow> view_id \<Rightarrow> accessor_id \<Rightarrow> nat option" where
  "accessorPointerIndex S_SaveParams V_Reader A_has = Some (0 * POINTERS)"
| "accessorPointerIndex S_SaveParams V_Builder A_has = Some (0 * POINTERS)"
| "accessorPointerIndex S_SaveParams V_Reader A_get = Some (0 * POINTERS)"
| "accessorPointerIndex S_SaveParams V_Builder A_get = Some (0 * POINTERS)"
| "accessorPointerIndex S_SaveParams V_Pipeline A_get = Some (unat (0 :: uint16_t))"
| "accessorPointerIndex S_SaveParams V_Builder A_set = Some (0 * POINTERS)"
| "accessorPointerIndex S_SaveParams V_Builder A_init = Some (0 * POINTERS)"
| "accessorPointerIndex S_SaveParams V_Builder A_init_size = Some (0 * POINTERS)"
| "accessorPointerIndex S_SaveParams V_Builder A_adopt = Some (0 * POINTERS)"
| "accessorPointerIndex S_SaveParams V_Builder A_disown = Some (0 * POINTERS)"
| "accessorPointerIndex S_SaveResults V_Reader A_has = Some (0 * POINTERS)"
| "accessorPointerIndex S_SaveResults V_Builder A_has = Some (0 * POINTERS)"
| "accessorPointerIndex S_SaveResults V_Reader A_get = Some (0 * POINTERS)"
| "accessorPointerIndex S_SaveResults V_Builder A_get = Some (0 * POINTERS)"
| "accessorPointerIndex S_SaveResults V_Pipeline A_get = Some (unat (0 :: uint16_t))"
| "accessorPointerIndex S_SaveResults V_Builder A_set = Some (0 * POINTERS)"
| "accessorPointerIndex S_SaveResults V_Builder A_init = Some (0 * POINTERS)"
| "accessorPointerIndex S_SaveResults V_Builder A_init_size = Some (0 * POINTERS)"
| "accessorPointerIndex S_SaveResults V_Builder A_adopt = Some (0 * POINTERS)"
| "accessorPointerIndex S_SaveResults V_Builder A_disown = Some (0 * POINTERS)"
| "accessorPointerIndex s v a = None"

subsection \<open>Sample objects\<close>

text \<open>
  A server that overrides \<open>save\<close>: it fulfils the call and counts it in its state. The
  helpers of a text payload: the default is the empty text, \<open>init(size)\<close> allocates that
  many zero bytes. And some messages with a text payload: a \<open>SaveParams\<close> written under a
  schema without the field, a \<open>SaveParams\<close> whose field is set and set again, and a
  \<open>SaveResults\<close> freshly allocated, with the field set, and with the field disowned.
\<close>

definition countingServer :: "(unit, nat) Server" where
  "countingServer = \<lparr>save = (\<lambda>c n. (Fulfilled, Suc n))\<rparr>"

definition textHelpers :: "string PointerHelpers" where
  "textHelpers =
     \<lparr>schemaDefault = '''', zeroValue = '''',
      zeroValueOfSize = (\<lambda>n. replicate (unat n) (CHR 0x00))\<rparr>"

definition twoPointerStruct :: "string StructReader" where
  "twoPointerStruct = \<lparr>rsegment = [''alice'', ''admin''], rpointers = [ObjectAt 0, ObjectAt 1]\<rparr>"

definition truncatedParams :: "(unit, unit, string) SaveParams_Reader" where
  "truncatedParams = SaveParams_Reader \<lparr>rsegment = [''alice''], rpointers = []\<rparr>"

definition bobParams :: "(unit, unit, string) SaveParams_Builder" where
  "bobParams = SaveParams_Builder \<lparr>bsegment = [''bob''], bpointers = [ObjectAt 0]\<rparr>"

definition freshResults :: "(unit, unit, string) SaveResults_Builder" where
  "freshResults = SaveResults_Builder (initStruct SaveResults_structSize)"

definition savedResults :: "(unit, unit, string) SaveResults_Builder" where
  "savedResults = SaveResults_Builder \<lparr>bsegment = [''ref:42''], bpointers = [ObjectAt 0]\<rparr>"

definition aliceParams :: "(unit, unit, string) SaveParams_Builder" where
  "aliceParams = SaveParams_Builder \<lparr>bsegment = [''bob'', ''alice''], bpointers = [ObjectAt 1]\<rparr>"

definition disownedResults :: "(unit, unit, string) SaveResults_Builder" where
  "disownedResults = SaveResults_Builder \<lparr>bsegment = [''ref:42''], bpointers = [NullPointer]\<rparr>"

text \<open>The results of a call that is still pending: the pipeline with the empty path.\<close>

definition pendingResults :: "(unit, unit, unit) SaveResults_Pipeline" where
  "pendingResults = SaveResults_Pipeline (AnyPointer_Pipeline () [])"

section \<open>Dispatch\<close>

text \<open>
  C1. On the registered interface id \<open>0xc8cb212fcd9f5691\<close> with method id 0,
  \<open>dispatchCall\<close> runs the \<open>save\<close> handler of the server on the typed context: the
  result carries the handler's promise and the state the handler leaves. On any other
  interface id the call is rejected with \<open>UnimplementedInterface\<close>, carrying the interface
  name and the requested id; on the registered id with any method id other than 0 it is
  rejected with \<open>UnimplementedMethod\<close>. In both failing cases no handler runs: the state
  of the server is unchanged.
\<close>

theorem dispatchCall_routing:
  "dispatchCall fl server 0xc8cb212fcd9f5691 0 context this =
     (case save server (internalGetTypedContext context) this of
        (p, this') \<Rightarrow>
          (\<lparr>promise = p, isStreaming = False, allowCancellation = False\<rparr>, this'))
   \<and> (iid \<noteq> 0xc8cb212fcd9f5691 \<longrightarrow>
        promise (fst (dispatchCall fl server iid mid context this)) =
          Rejected (UnimplementedInterface ''capnp/persistent.capnp:Persistent'' iid)
        \<and> snd (dispatchCall fl server iid mid context this) = this)
   \<and> (mid \<noteq> 0 \<longrightarrow>
        promise (fst (dispatchCall fl server 0xc8cb212fcd9f5691 mid context this)) =
          Rejected (UnimplementedMethod ''capnp/persistent.capnp:Persistent'' None
            0xc8cb212fcd9f5691 mid)
        \<and> snd (dispatchCall fl server 0xc8cb212fcd9f5691 mid context this) = this)"
  by (simp add: dispatchCall_def dispatchCallInternal_def
      internalUnimplemented_interface_def internalUnimplemented_method_def)

theorem dispatchCall_routing_witness:
  "dispatchCall (False, True) countingServer 0xc8cb212fcd9f5691 0 (CallContext ()) 4 =
     (\<lparr>promise = Fulfilled, isStreaming = False, allowCancellation = False\<rparr>, 5)
   \<and> (5 :: uint64_t) \<noteq> 0xc8cb212fcd9f5691
   \<and> promise (fst (dispatchCall (False, True) countingServer 5 7 (CallContext ()) 4)) =
        Rejected (UnimplementedInterface ''capnp/persistent.capnp:Persistent'' 5)
   \<and> snd (dispatchCall (False, True) countingServer 5 7 (CallContext ()) 4) = 4
   \<and> (7 :: uint16_t) \<noteq> 0
   \<and> promise (fst (dispatchCall (False, True) countingServer 0xc8cb212fcd9f5691 7
          (CallContext ()) 4)) =
        Rejected (UnimplementedMethod ''capnp/persistent.capnp:Persistent'' None
          0xc8cb212fcd9f5691 7)
   \<and> snd (dispatchCall (False, True) countingServer 0xc8cb212fcd9f5691 7 (CallContext ()) 4) = 4"
  using dispatchCall_routing [of "(False, True)" countingServer "CallContext ()" 4 5 7]
  by (simp add: countingServer_def)

text \<open>
  C2. The inherited body of \<open>save\<close> returns, for every call context, a rejected promise
  whose failure is \<open>UnimplementedMethod\<close> with the interface name
  \<open>capnp/persistent.capnp:Persistent\<close>, the method name \<open>save\<close>, the interface id
  \<open>0xc8cb212fcd9f5691\<close> and the method ordinal 0, and it leaves the server as it was.
  Dispatching \<open>save\<close> on a server that does not override it hands this failure to the
  caller.
\<close>

theorem default_save_unimplemented:
  "Server_save context this =
     (Rejected (UnimplementedMethod ''capnp/persistent.capnp:Persistent'' (Some ''save'')
        0xc8cb212fcd9f5691 0), this)
   \<and> dispatchCall fl Server_base 0xc8cb212fcd9f5691 0 cc this =
     (\<lparr>promise = Rejected (UnimplementedMethod ''capnp/persistent.capnp:Persistent''
          (Some ''save'') 0xc8cb212fcd9f5691 0),
       isStreaming = False, allowCancellation = False\<rparr>, this)"
  by (simp add: Server_save_def Server_base_def internalUnimplemented_named_def
      dispatchCall_def dispatchCallInternal_def)

text \<open>
  C8. A request built by \<open>Client::saveRequest\<close> carries the interface id
  \<open>0xc8cb212fcd9f5691\<close> and the method id 0, and \<open>Server::dispatchCall\<close> on these two
  keys runs the \<open>save\<close> handler, not an unimplemented branch.
\<close>

theorem saveRequest_reaches_save:
  "interfaceId (saveRequest client hint) = 0xc8cb212fcd9f5691
   \<and> methodId (saveRequest client hint) = 0
   \<and> dispatchCall fl server (interfaceId (saveRequest client hint))
        (methodId (saveRequest client hint)) context this =
      (case save server (internalGetTypedContext context) this of
         (p, this') \<Rightarrow>
           (\<lparr>promise = p, isStreaming = False, allowCancellation = False\<rparr>, this'))"
  by (simp add: saveRequest_def newCall_def dispatchCall_def dispatchCallInternal_def)

text \<open>
  C9. The result that \<open>dispatchCallInternal\<close> returns for method id 0 has both flags
  false, whatever the handler does: a \<open>save\<close> call is not streaming and does not allow
  cancellation. The same holds when the call arrives through \<open>dispatchCall\<close>.
\<close>

theorem save_dispatch_flags:
  "\<not> isStreaming (fst (dispatchCallInternal fl server 0 context this))
   \<and> \<not> allowCancellation (fst (dispatchCallInternal fl server 0 context this))
   \<and> \<not> isStreaming (fst (dispatchCall fl server 0xc8cb212fcd9f5691 0 context this))
   \<and> \<not> allowCancellation (fst (dispatchCall fl server 0xc8cb212fcd9f5691 0 context this))"
  by (simp add: dispatchCall_def dispatchCallInternal_def split: prod.split)

section \<open>Struct accessors\<close>

subsection \<open>The pointer section, in and out of bounds\<close>

lemma getPointerField_beyond:
  "length (rpointers r) \<le> i \<Longrightarrow>
     StructReader_getPointerField r i = \<lparr>pr_segment = [], pr_pointer = NullPointer\<rparr>"
  by (simp add: StructReader_getPointerField_def)

lemma reader_isNull_iff:
  "PointerReader_isNull (StructReader_getPointerField r i) =
     (i < length (rpointers r) \<longrightarrow> rpointers r ! i = NullPointer)"
  by (simp add: PointerReader_isNull_def StructReader_getPointerField_def)

lemma write_in_bounds:
  "pb_index p < length (bpointers (pb_struct p)) \<Longrightarrow>
     PointerBuilder_write p seg q =
       Inr \<lparr>bsegment = seg, bpointers = (bpointers (pb_struct p))[pb_index p := q]\<rparr>"
  by (simp add: PointerBuilder_write_def)

lemma read_in_bounds:
  "pb_index p < length (bpointers (pb_struct p)) \<Longrightarrow>
     PointerBuilder_read p = Inr (bpointers (pb_struct p) ! pb_index p)"
  by (simp add: PointerBuilder_read_def)

lemma isNull_in_bounds:
  "i < length (bpointers b) \<Longrightarrow>
     PointerBuilder_isNull (StructBuilder_getPointerField b i) =
       Inr (bpointers b ! i = NullPointer)"
  by (simp add: PointerBuilder_isNull_def StructBuilder_getPointerField_def read_in_bounds)

lemma isNull_out_of_bounds:
  "\<not> i < length (bpointers b) \<Longrightarrow>
     PointerBuilder_isNull (StructBuilder_getPointerField b i) = Inl OutOfBoundsAccess"
  by (simp add: PointerBuilder_isNull_def StructBuilder_getPointerField_def
      PointerBuilder_read_def)

lemma getBuilder_in_bounds:
  "i < length (bpointers b) \<Longrightarrow>
     PointerHelpers_getBuilder ph (StructBuilder_getPointerField b i) =
       resolve (schemaDefault ph) (bsegment b) (bpointers b ! i)"
  by (simp add: PointerHelpers_getBuilder_def StructBuilder_getPointerField_def read_in_bounds)

lemma set_in_bounds:
  "i < length (bpointers b) \<Longrightarrow>
     PointerHelpers_set (StructBuilder_getPointerField b i) v =
       Inr \<lparr>bsegment = bsegment b @ [v],
            bpointers = (bpointers b)[i := ObjectAt (length (bsegment b))]\<rparr>"
  by (simp add: PointerHelpers_set_def StructBuilder_getPointerField_def write_in_bounds)

lemma get_after_set:
  "i < length (bpointers b) \<Longrightarrow>
     PointerHelpers_get ph
       (StructReader_getPointerField
          (StructBuilder_asReader
             \<lparr>bsegment = bsegment b @ [v],
              bpointers = (bpointers b)[i := ObjectAt (length (bsegment b))]\<rparr>) i) = Inr v"
  by (simp add: PointerHelpers_get_def StructReader_getPointerField_def
      StructBuilder_asReader_def)

lemma disown_in_bounds:
  "i < length (bpointers b) \<Longrightarrow>
     PointerHelpers_disown (StructBuilder_getPointerField b i) =
       Inr (Orphan (bpointers b ! i),
            \<lparr>bsegment = bsegment b, bpointers = (bpointers b)[i := NullPointer]\<rparr>)"
  by (simp add: PointerHelpers_disown_def StructBuilder_getPointerField_def
      read_in_bounds write_in_bounds)

lemma adopt_in_bounds:
  "i < length (bpointers b) \<Longrightarrow>
     PointerHelpers_adopt (StructBuilder_getPointerField b i) (Orphan q) =
       Inr \<lparr>bsegment = bsegment b, bpointers = (bpointers b)[i := q]\<rparr>"
  by (simp add: StructBuilder_getPointerField_def write_in_bounds)

lemma hasSturdyRef_True_in_bounds:
  "SaveResults_Builder_hasSturdyRef b = Inr True \<Longrightarrow>
     0 < length (bpointers (sr_builder b)) \<and> bpointers (sr_builder b) ! 0 \<noteq> NullPointer"
  by (cases "0 < length (bpointers (sr_builder b))")
     (simp_all add: SaveResults_Builder_hasSturdyRef_def isNull_in_bounds isNull_out_of_bounds)

subsection \<open>Reading a struct that is shorter than the schema\<close>

text \<open>
  C3. A struct stored with \<open>K\<close> pointer words, read at pointer index \<open>K\<close> (the field an
  accessor of a newer schema expects as pointer word \<open>K + 1\<close>), gives the null pointer,
  and \<open>get\<close> returns the schema default as a value, not a failure. In particular
  \<open>getSealFor\<close> on a \<open>SaveParams\<close> stored with no pointer word returns the default, and
  \<open>hasSealFor\<close> is false there.
\<close>

theorem truncated_struct_reads_default:
  "(length (rpointers r) = K \<longrightarrow>
      PointerReader_isNull (StructReader_getPointerField r K)
      \<and> PointerHelpers_get ph (StructReader_getPointerField r K) = Inr (schemaDefault ph))
   \<and> (rpointers (sp_reader p) = [] \<longrightarrow>
      SaveParams_Reader_getSealFor ph p = Inr (schemaDefault ph)
      \<and> \<not> SaveParams_Reader_hasSealFor p)"
  by (simp add: getPointerField_beyond PointerReader_isNull_def PointerHelpers_get_def
      SaveParams_Reader_getSealFor_def SaveParams_Reader_hasSealFor_def)

theorem truncated_struct_reads_default_witness:
  "length (rpointers twoPointerStruct) = 2
   \<and> PointerReader_isNull (StructReader_getPointerField twoPointerStruct 2)
   \<and> PointerHelpers_get textHelpers (StructReader_getPointerField twoPointerStruct 2) = Inr ''''
   \<and> rpointers (sp_reader truncatedParams) = []
   \<and> SaveParams_Reader_getSealFor textHelpers truncatedParams = Inr ''''
   \<and> \<not> SaveParams_Reader_hasSealFor truncatedParams"
proof -
  have two: "length (rpointers twoPointerStruct) = 2"
    by (simp add: twoPointerStruct_def)
  have none: "rpointers (sp_reader truncatedParams) = []"
    by (simp add: truncatedParams_def)
  have dflt: "schemaDefault textHelpers = ''''"
    by (simp add: textHelpers_def)
  from truncated_struct_reads_default [of twoPointerStruct 2 textHelpers truncatedParams]
    two none dflt
  show ?thesis by simp
qed

subsection \<open>Set, then get\<close>

text \<open>
  C4. On a Builder whose struct has the declared pointer section, \<open>setSturdyRef v\<close>
  succeeds, and \<open>getSturdyRef\<close> through the Reader of the same Builder then returns
  exactly \<open>v\<close>. The same holds for \<open>setSealFor\<close> and \<open>getSealFor\<close> on \<open>SaveParams\<close>.
\<close>

theorem set_then_get_roundtrip:
  "(pointerCount SaveResults_structSize \<le> length (bpointers (sr_builder b)) \<longrightarrow>
      (\<exists>b'. SaveResults_Builder_setSturdyRef b v = Inr b'
         \<and> SaveResults_Reader_getSturdyRef ph (SaveResults_Builder_asReader b') = Inr v))
   \<and> (pointerCount SaveParams_structSize \<le> length (bpointers (sp_builder c)) \<longrightarrow>
      (\<exists>c'. SaveParams_Builder_setSealFor c w = Inr c'
         \<and> SaveParams_Reader_getSealFor qh (SaveParams_Builder_asReader c') = Inr w))"
  by (simp add: SaveResults_structSize_def SaveParams_structSize_def
      SaveResults_Builder_setSturdyRef_def SaveParams_Builder_setSealFor_def
      SaveResults_Reader_getSturdyRef_def SaveParams_Reader_getSealFor_def
      SaveResults_Builder_asReader_def SaveParams_Builder_asReader_def
      set_in_bounds get_after_set Suc_le_eq)

theorem set_then_get_roundtrip_witness:
  "pointerCount SaveResults_structSize \<le> length (bpointers (sr_builder freshResults))
   \<and> SaveResults_Builder_setSturdyRef freshResults ''ref:42'' = Inr savedResults
   \<and> SaveResults_Reader_getSturdyRef textHelpers (SaveResults_Builder_asReader savedResults) =
      Inr ''ref:42''
   \<and> pointerCount SaveParams_structSize \<le> length (bpointers (sp_builder bobParams))
   \<and> SaveParams_Builder_setSealFor bobParams ''alice'' = Inr aliceParams
   \<and> SaveParams_Reader_getSealFor textHelpers (SaveParams_Builder_asReader aliceParams) =
      Inr ''alice''"
proof -
  have fresh: "pointerCount SaveResults_structSize \<le> length (bpointers (sr_builder freshResults))"
    by (simp add: freshResults_def SaveResults_structSize_def initStruct_def)
  have bob: "pointerCount SaveParams_structSize \<le> length (bpointers (sp_builder bobParams))"
    by (simp add: bobParams_def SaveParams_structSize_def)
  have s1: "SaveResults_Builder_setSturdyRef freshResults ''ref:42'' = Inr savedResults"
    by (simp add: freshResults_def savedResults_def SaveResults_structSize_def initStruct_def
        SaveResults_Builder_setSturdyRef_def set_in_bounds)
  have s2: "SaveParams_Builder_setSealFor bobParams ''alice'' = Inr aliceParams"
    by (simp add: bobParams_def aliceParams_def SaveParams_Builder_setSealFor_def set_in_bounds)
  from set_then_get_roundtrip
      [of freshResults "''ref:42''" textHelpers bobParams "''alice''" textHelpers]
    fresh bob s1 s2
  show ?thesis by simp
qed

subsection \<open>The has-accessors\<close>

text \<open>
  C5. \<open>hasSealFor\<close> and \<open>hasSturdyRef\<close> are true exactly when pointer slot 0 of the
  struct exists and is not null: on the Reader for every struct, on the Builder for every
  struct that has the slot. After \<open>set\<close>, \<open>init\<close> or \<open>init(size)\<close> of the field they
  are true, on the Builder and on its Reader; on a freshly allocated struct of the declared
  size they are false.
\<close>

theorem has_iff_slot_nonnull:
  "SaveParams_Reader_hasSealFor r =
     (0 < length (rpointers (sp_reader r)) \<and> rpointers (sp_reader r) ! 0 \<noteq> NullPointer)
   \<and> SaveResults_Reader_hasSturdyRef q =
     (0 < length (rpointers (sr_reader q)) \<and> rpointers (sr_reader q) ! 0 \<noteq> NullPointer)
   \<and> (0 < length (bpointers (sp_builder b)) \<longrightarrow>
        SaveParams_Builder_hasSealFor b = Inr (bpointers (sp_builder b) ! 0 \<noteq> NullPointer)
        \<and> (\<exists>b'. SaveParams_Builder_setSealFor b v = Inr b'
              \<and> SaveParams_Builder_hasSealFor b' = Inr True
              \<and> SaveParams_Reader_hasSealFor (SaveParams_Builder_asReader b'))
        \<and> (\<exists>b'. SaveParams_Builder_initSealFor ph b = Inr b'
              \<and> SaveParams_Builder_hasSealFor b' = Inr True
              \<and> SaveParams_Reader_hasSealFor (SaveParams_Builder_asReader b'))
        \<and> (\<exists>b'. SaveParams_Builder_initSealFor_size ph b n = Inr b'
              \<and> SaveParams_Builder_hasSealFor b' = Inr True
              \<and> SaveParams_Reader_hasSealFor (SaveParams_Builder_asReader b')))
   \<and> (0 < length (bpointers (sr_builder c)) \<longrightarrow>
        SaveResults_Builder_hasSturdyRef c = Inr (bpointers (sr_builder c) ! 0 \<noteq> NullPointer)
        \<and> (\<exists>c'. SaveResults_Builder_setSturdyRef c w = Inr c'
              \<and> SaveResults_Builder_hasSturdyRef c' = Inr True
              \<and> SaveResults_Reader_hasSturdyRef (SaveResults_Builder_asReader c'))
        \<and> (\<exists>c'. SaveResults_Builder_initSturdyRef qh c = Inr c'
              \<and> SaveResults_Builder_hasSturdyRef c' = Inr True
              \<and> SaveResults_Reader_hasSturdyRef (SaveResults_Builder_asReader c'))
        \<and> (\<exists>c'. SaveResults_Builder_initSturdyRef_size qh c m = Inr c'
              \<and> SaveResults_Builder_hasSturdyRef c' = Inr True
              \<and> SaveResults_Reader_hasSturdyRef (SaveResults_Builder_asReader c')))
   \<and> SaveParams_Builder_hasSealFor (SaveParams_Builder (initStruct SaveParams_structSize)) =
       Inr False
   \<and> \<not> SaveParams_Reader_hasSealFor
        (SaveParams_Builder_asReader (SaveParams_Builder (initStruct SaveParams_structSize)))
   \<and> SaveResults_Builder_hasSturdyRef (SaveResults_Builder (initStruct SaveResults_structSize)) =
       Inr False
   \<and> \<not> SaveResults_Reader_hasSturdyRef
        (SaveResults_Builder_asReader (SaveResults_Builder (initStruct SaveResults_structSize)))"
  by (simp add: SaveParams_Reader_hasSealFor_def SaveResults_Reader_hasSturdyRef_def
      SaveParams_Builder_hasSealFor_def SaveResults_Builder_hasSturdyRef_def
      SaveParams_Builder_setSealFor_def SaveResults_Builder_setSturdyRef_def
      SaveParams_Builder_initSealFor_def SaveResults_Builder_initSturdyRef_def
      SaveParams_Builder_initSealFor_size_def SaveResults_Builder_initSturdyRef_size_def
      SaveParams_Builder_asReader_def SaveResults_Builder_asReader_def
      PointerHelpers_init_def PointerHelpers_initSized_def StructBuilder_asReader_def
      SaveParams_structSize_def SaveResults_structSize_def initStruct_def
      reader_isNull_iff isNull_in_bounds set_in_bounds)

theorem has_iff_slot_nonnull_witness:
  "0 < length (bpointers (sp_builder bobParams))
   \<and> SaveParams_Builder_hasSealFor bobParams = Inr True
   \<and> SaveParams_Reader_hasSealFor (SaveParams_Builder_asReader bobParams)
   \<and> 0 < length (bpointers (sr_builder freshResults))
   \<and> SaveResults_Builder_hasSturdyRef freshResults = Inr False
   \<and> \<not> SaveResults_Reader_hasSturdyRef (SaveResults_Builder_asReader freshResults)
   \<and> SaveResults_Builder_setSturdyRef freshResults ''ref:42'' = Inr savedResults
   \<and> SaveResults_Builder_hasSturdyRef savedResults = Inr True
   \<and> SaveResults_Reader_hasSturdyRef (SaveResults_Builder_asReader savedResults)"
proof -
  have bob: "0 < length (bpointers (sp_builder bobParams))"
    and bob0: "bpointers (sp_builder bobParams) ! 0 = ObjectAt 0"
    and bobr: "rpointers (sp_reader (SaveParams_Builder_asReader bobParams)) = [ObjectAt 0]"
    by (simp_all add: bobParams_def SaveParams_Builder_asReader_def StructBuilder_asReader_def)
  have fresh: "0 < length (bpointers (sr_builder freshResults))"
    and fresh0: "bpointers (sr_builder freshResults) ! 0 = NullPointer"
    and freshr: "rpointers (sr_reader (SaveResults_Builder_asReader freshResults)) = [NullPointer]"
    by (simp_all add: freshResults_def SaveResults_structSize_def initStruct_def
        SaveResults_Builder_asReader_def StructBuilder_asReader_def)
  have saved: "SaveResults_Builder_setSturdyRef freshResults ''ref:42'' = Inr savedResults"
    by (simp add: freshResults_def savedResults_def SaveResults_structSize_def initStruct_def
        SaveResults_Builder_setSturdyRef_def set_in_bounds)
  from has_iff_slot_nonnull
      [of "SaveParams_Builder_asReader bobParams" "SaveResults_Builder_asReader freshResults"
          bobParams "''alice''" textHelpers 3 freshResults "''ref:42''" textHelpers 3]
    bob bob0 bobr fresh fresh0 freshr saved
  show ?thesis by auto
qed

subsection \<open>Generic rebinding\<close>

text \<open>
  C6. \<open>asPersistentGeneric\<close> on a Reader changes the binding of the generic parameters
  and nothing else: the new view wraps the same \<open>StructReader\<close>. Two rebindings of one
  reader to different parameters therefore wrap the same struct, and \<open>get\<close> (decoding
  with the same helpers, that is the same wire representation) and \<open>has\<close> give the
  same result through both. This holds for \<open>SaveParams\<close> and for \<open>SaveResults\<close>.
\<close>

theorem rebinding_is_relabeling:
  "sp_reader (SaveParams_Reader_asPersistentGeneric r :: ('x, 'y, 'a) SaveParams_Reader) =
     sp_reader r
   \<and> sp_reader (SaveParams_Reader_asPersistentGeneric r :: ('x, 'y, 'a) SaveParams_Reader) =
     sp_reader (SaveParams_Reader_asPersistentGeneric r :: ('x2, 'y2, 'a) SaveParams_Reader)
   \<and> SaveParams_Reader_getSealFor ph
        (SaveParams_Reader_asPersistentGeneric r :: ('x, 'y, 'a) SaveParams_Reader) =
      SaveParams_Reader_getSealFor ph
        (SaveParams_Reader_asPersistentGeneric r :: ('x2, 'y2, 'a) SaveParams_Reader)
   \<and> SaveParams_Reader_hasSealFor
        (SaveParams_Reader_asPersistentGeneric r :: ('x, 'y, 'a) SaveParams_Reader) =
      SaveParams_Reader_hasSealFor
        (SaveParams_Reader_asPersistentGeneric r :: ('x2, 'y2, 'a) SaveParams_Reader)
   \<and> sr_reader (SaveResults_Reader_asPersistentGeneric q :: ('x, 'y, 'b) SaveResults_Reader) =
     sr_reader q
   \<and> sr_reader (SaveResults_Reader_asPersistentGeneric q :: ('x, 'y, 'b) SaveResults_Reader) =
     sr_reader (SaveResults_Reader_asPersistentGeneric q :: ('x2, 'y2, 'b) SaveResults_Reader)
   \<and> SaveResults_Reader_getSturdyRef qh
        (SaveResults_Reader_asPersistentGeneric q :: ('x, 'y, 'b) SaveResults_Reader) =
      SaveResults_Reader_getSturdyRef qh
        (SaveResults_Reader_asPersistentGeneric q :: ('x2, 'y2, 'b) SaveResults_Reader)
   \<and> SaveResults_Reader_hasSturdyRef
        (SaveResults_Reader_asPersistentGeneric q :: ('x, 'y, 'b) SaveResults_Reader) =
      SaveResults_Reader_hasSturdyRef
        (SaveResults_Reader_asPersistentGeneric q :: ('x2, 'y2, 'b) SaveResults_Reader)"
  by (simp add: SaveParams_Reader_asPersistentGeneric_def
      SaveResults_Reader_asPersistentGeneric_def
      SaveParams_Reader_getSealFor_def SaveResults_Reader_getSturdyRef_def
      SaveParams_Reader_hasSealFor_def SaveResults_Reader_hasSturdyRef_def)

subsection \<open>Disown, then adopt\<close>

text \<open>
  C7. On a Builder whose \<open>sturdyRef\<close> is set, \<open>disownSturdyRef\<close> succeeds and leaves
  the slot null, so that \<open>hasSturdyRef\<close> is false on the Builder and on its Reader;
  the segment is the same as before, nothing was allocated or moved. Adopting the orphan
  into the same field gives back the Builder as it was before the disown, pointer section
  and segment alike, so every read of it is what it was.
\<close>

theorem disown_adopt_identity:
  assumes "SaveResults_Builder_hasSturdyRef b = Inr True"
  shows "case SaveResults_Builder_disownSturdyRef b of
           Inl f \<Rightarrow> False
         | Inr (orphan, b1) \<Rightarrow>
             SaveResults_Builder_hasSturdyRef b1 = Inr False
             \<and> \<not> SaveResults_Reader_hasSturdyRef (SaveResults_Builder_asReader b1)
             \<and> bsegment (sr_builder b1) = bsegment (sr_builder b)
             \<and> SaveResults_Builder_adoptSturdyRef b1 orphan = Inr b"
proof -
  let ?s = "sr_builder b"
  let ?b1 = "SaveResults_Builder
      \<lparr>bsegment = bsegment ?s, bpointers = (bpointers ?s)[0 := NullPointer]\<rparr>"
  from assms have ib: "0 < length (bpointers ?s)"
    by (rule hasSturdyRef_True_in_bounds [THEN conjunct1])
  have restored: "SaveResults_Builder
      \<lparr>bsegment = bsegment ?s,
       bpointers = ((bpointers ?s)[0 := NullPointer])[0 := bpointers ?s ! 0]\<rparr> = b"
    by (cases b) simp
  have d: "SaveResults_Builder_disownSturdyRef b = Inr (Orphan (bpointers ?s ! 0), ?b1)"
    using ib by (simp add: SaveResults_Builder_disownSturdyRef_def disown_in_bounds)
  have h: "SaveResults_Builder_hasSturdyRef ?b1 = Inr False"
    using ib by (simp add: SaveResults_Builder_hasSturdyRef_def isNull_in_bounds)
  have r: "\<not> SaveResults_Reader_hasSturdyRef (SaveResults_Builder_asReader ?b1)"
    using ib
    by (simp add: SaveResults_Reader_hasSturdyRef_def SaveResults_Builder_asReader_def
        StructBuilder_asReader_def PointerReader_isNull_def StructReader_getPointerField_def)
  have a: "SaveResults_Builder_adoptSturdyRef ?b1 (Orphan (bpointers ?s ! 0)) = Inr b"
    using ib restored
    by (simp add: SaveResults_Builder_adoptSturdyRef_def adopt_in_bounds
        del: PointerHelpers_adopt.simps)
  from d h r a show ?thesis by simp
qed

theorem disown_adopt_identity_witness:
  "SaveResults_Builder_hasSturdyRef savedResults = Inr True
   \<and> SaveResults_Builder_disownSturdyRef savedResults =
      Inr (Orphan (ObjectAt 0), disownedResults)
   \<and> SaveResults_Builder_hasSturdyRef disownedResults = Inr False
   \<and> SaveResults_Builder_adoptSturdyRef disownedResults (Orphan (ObjectAt 0)) =
      Inr savedResults
   \<and> SaveResults_Reader_getSturdyRef textHelpers (SaveResults_Builder_asReader savedResults) =
      Inr ''ref:42''"
proof -
  have h: "SaveResults_Builder_hasSturdyRef savedResults = Inr True"
    by (simp add: savedResults_def SaveResults_Builder_hasSturdyRef_def isNull_in_bounds)
  have d: "SaveResults_Builder_disownSturdyRef savedResults =
      Inr (Orphan (ObjectAt 0), disownedResults)"
    by (simp add: savedResults_def disownedResults_def
        SaveResults_Builder_disownSturdyRef_def disown_in_bounds)
  have g: "SaveResults_Reader_getSturdyRef textHelpers (SaveResults_Builder_asReader savedResults) =
      Inr ''ref:42''"
    by (simp add: savedResults_def SaveResults_Reader_getSturdyRef_def
        SaveResults_Builder_asReader_def StructBuilder_asReader_def PointerHelpers_get_def
        StructReader_getPointerField_def)
  from disown_adopt_identity [OF h] d h g show ?thesis
    by simp
qed

subsection \<open>The slot every accessor addresses\<close>

text \<open>
  Each accessor of the header is the runtime operation applied at the index the table
  gives for it.
\<close>

lemma SaveParams_accessors_at_index:
  "SaveParams_Reader_hasSealFor r =
     (\<not> PointerReader_isNull (StructReader_getPointerField (sp_reader r)
          (the (accessorPointerIndex S_SaveParams V_Reader A_has))))"
  "SaveParams_Builder_hasSealFor b =
     map_sum id Not (PointerBuilder_isNull (StructBuilder_getPointerField (sp_builder b)
          (the (accessorPointerIndex S_SaveParams V_Builder A_has))))"
  "SaveParams_Reader_getSealFor ph r =
     PointerHelpers_get ph (StructReader_getPointerField (sp_reader r)
          (the (accessorPointerIndex S_SaveParams V_Reader A_get)))"
  "SaveParams_Builder_getSealFor ph b =
     PointerHelpers_getBuilder ph (StructBuilder_getPointerField (sp_builder b)
          (the (accessorPointerIndex S_SaveParams V_Builder A_get)))"
  "SaveParams_Pipeline_getSealFor p =
     Pipeline_getPointerField (sp_typeless p)
       (of_nat (the (accessorPointerIndex S_SaveParams V_Pipeline A_get)))"
  "SaveParams_Builder_setSealFor b v =
     map_sum id SaveParams_Builder (PointerHelpers_set (StructBuilder_getPointerField
          (sp_builder b) (the (accessorPointerIndex S_SaveParams V_Builder A_set))) v)"
  "SaveParams_Builder_initSealFor ph b =
     map_sum id SaveParams_Builder (PointerHelpers_init ph (StructBuilder_getPointerField
          (sp_builder b) (the (accessorPointerIndex S_SaveParams V_Builder A_init))))"
  "SaveParams_Builder_initSealFor_size ph b n =
     map_sum id SaveParams_Builder (PointerHelpers_initSized ph (StructBuilder_getPointerField
          (sp_builder b) (the (accessorPointerIndex S_SaveParams V_Builder A_init_size))) n)"
  "SaveParams_Builder_adoptSealFor b orphan =
     map_sum id SaveParams_Builder (PointerHelpers_adopt (StructBuilder_getPointerField
          (sp_builder b) (the (accessorPointerIndex S_SaveParams V_Builder A_adopt))) orphan)"
  "SaveParams_Builder_disownSealFor b =
     map_sum id (map_prod id SaveParams_Builder) (PointerHelpers_disown
          (StructBuilder_getPointerField (sp_builder b)
             (the (accessorPointerIndex S_SaveParams V_Builder A_disown))))"
  by (simp_all add: SaveParams_Reader_hasSealFor_def SaveParams_Builder_hasSealFor_def
      SaveParams_Reader_getSealFor_def SaveParams_Builder_getSealFor_def
      SaveParams_Pipeline_getSealFor_def SaveParams_Builder_setSealFor_def
      SaveParams_Builder_initSealFor_def SaveParams_Builder_initSealFor_size_def
      SaveParams_Builder_adoptSealFor_def SaveParams_Builder_disownSealFor_def
      split: sum.split)

lemma SaveResults_accessors_at_index:
  "SaveResults_Reader_hasSturdyRef r =
     (\<not> PointerReader_isNull (StructReader_getPointerField (sr_reader r)
          (the (accessorPointerIndex S_SaveResults V_Reader A_has))))"
  "SaveResults_Builder_hasSturdyRef b =
     map_sum id Not (PointerBuilder_isNull (StructBuilder_getPointerField (sr_builder b)
          (the (accessorPointerIndex S_SaveResults V_Builder A_has))))"
  "SaveResults_Reader_getSturdyRef ph r =
     PointerHelpers_get ph (StructReader_getPointerField (sr_reader r)
          (the (accessorPointerIndex S_SaveResults V_Reader A_get)))"
  "SaveResults_Builder_getSturdyRef ph b =
     PointerHelpers_getBuilder ph (StructBuilder_getPointerField (sr_builder b)
          (the (accessorPointerIndex S_SaveResults V_Builder A_get)))"
  "SaveResults_Pipeline_getSturdyRef p =
     Pipeline_getPointerField (sr_typeless p)
       (of_nat (the (accessorPointerIndex S_SaveResults V_Pipeline A_get)))"
  "SaveResults_Builder_setSturdyRef b v =
     map_sum id SaveResults_Builder (PointerHelpers_set (StructBuilder_getPointerField
          (sr_builder b) (the (accessorPointerIndex S_SaveResults V_Builder A_set))) v)"
  "SaveResults_Builder_initSturdyRef ph b =
     map_sum id SaveResults_Builder (PointerHelpers_init ph (StructBuilder_getPointerField
          (sr_builder b) (the (accessorPointerIndex S_SaveResults V_Builder A_init))))"
  "SaveResults_Builder_initSturdyRef_size ph b n =
     map_sum id SaveResults_Builder (PointerHelpers_initSized ph (StructBuilder_getPointerField
          (sr_builder b) (the (accessorPointerIndex S_SaveResults V_Builder A_init_size))) n)"
  "SaveResults_Builder_adoptSturdyRef b orphan =
     map_sum id SaveResults_Builder (PointerHelpers_adopt (StructBuilder_getPointerField
          (sr_builder b) (the (accessorPointerIndex S_SaveResults V_Builder A_adopt))) orphan)"
  "SaveResults_Builder_disownSturdyRef b =
     map_sum id (map_prod id SaveResults_Builder) (PointerHelpers_disown
          (StructBuilder_getPointerField (sr_builder b)
             (the (accessorPointerIndex S_SaveResults V_Builder A_disown))))"
  by (simp_all add: SaveResults_Reader_hasSturdyRef_def SaveResults_Builder_hasSturdyRef_def
      SaveResults_Reader_getSturdyRef_def SaveResults_Builder_getSturdyRef_def
      SaveResults_Pipeline_getSturdyRef_def SaveResults_Builder_setSturdyRef_def
      SaveResults_Builder_initSturdyRef_def SaveResults_Builder_initSturdyRef_size_def
      SaveResults_Builder_adoptSturdyRef_def SaveResults_Builder_disownSturdyRef_def
      split: sum.split)

text \<open>
  On a struct that has slot 0, no Builder accessor reaches outside the pointer section.
\<close>

lemma resolve_not_out_of_bounds_access: "resolve d seg q \<noteq> Inl OutOfBoundsAccess"
  by (cases q) simp_all

lemma SaveParams_Builder_in_bounds:
  assumes "0 < length (bpointers (sp_builder b))"
  shows "SaveParams_Builder_hasSealFor b \<noteq> Inl OutOfBoundsAccess"
    and "SaveParams_Builder_getSealFor ph b \<noteq> Inl OutOfBoundsAccess"
    and "SaveParams_Builder_setSealFor b x \<noteq> Inl OutOfBoundsAccess"
    and "SaveParams_Builder_initSealFor ph b \<noteq> Inl OutOfBoundsAccess"
    and "SaveParams_Builder_initSealFor_size ph b n \<noteq> Inl OutOfBoundsAccess"
    and "SaveParams_Builder_adoptSealFor b orphan \<noteq> Inl OutOfBoundsAccess"
    and "SaveParams_Builder_disownSealFor b \<noteq> Inl OutOfBoundsAccess"
proof -
  show "SaveParams_Builder_hasSealFor b \<noteq> Inl OutOfBoundsAccess"
    using assms by (simp add: SaveParams_Builder_hasSealFor_def isNull_in_bounds)
  show "SaveParams_Builder_getSealFor ph b \<noteq> Inl OutOfBoundsAccess"
    using assms
    by (simp add: SaveParams_Builder_getSealFor_def getBuilder_in_bounds
        resolve_not_out_of_bounds_access)
  show "SaveParams_Builder_setSealFor b x \<noteq> Inl OutOfBoundsAccess"
    using assms by (simp add: SaveParams_Builder_setSealFor_def set_in_bounds)
  show "SaveParams_Builder_initSealFor ph b \<noteq> Inl OutOfBoundsAccess"
    using assms
    by (simp add: SaveParams_Builder_initSealFor_def PointerHelpers_init_def set_in_bounds)
  show "SaveParams_Builder_initSealFor_size ph b n \<noteq> Inl OutOfBoundsAccess"
    using assms
    by (simp add: SaveParams_Builder_initSealFor_size_def PointerHelpers_initSized_def
        set_in_bounds)
  show "SaveParams_Builder_adoptSealFor b orphan \<noteq> Inl OutOfBoundsAccess"
    using assms
    by (cases orphan)
       (simp add: SaveParams_Builder_adoptSealFor_def adopt_in_bounds
          del: PointerHelpers_adopt.simps)
  show "SaveParams_Builder_disownSealFor b \<noteq> Inl OutOfBoundsAccess"
    using assms by (simp add: SaveParams_Builder_disownSealFor_def disown_in_bounds)
qed

lemma SaveResults_Builder_in_bounds:
  assumes "0 < length (bpointers (sr_builder b))"
  shows "SaveResults_Builder_hasSturdyRef b \<noteq> Inl OutOfBoundsAccess"
    and "SaveResults_Builder_getSturdyRef ph b \<noteq> Inl OutOfBoundsAccess"
    and "SaveResults_Builder_setSturdyRef b x \<noteq> Inl OutOfBoundsAccess"
    and "SaveResults_Builder_initSturdyRef ph b \<noteq> Inl OutOfBoundsAccess"
    and "SaveResults_Builder_initSturdyRef_size ph b n \<noteq> Inl OutOfBoundsAccess"
    and "SaveResults_Builder_adoptSturdyRef b orphan \<noteq> Inl OutOfBoundsAccess"
    and "SaveResults_Builder_disownSturdyRef b \<noteq> Inl OutOfBoundsAccess"
proof -
  show "SaveResults_Builder_hasSturdyRef b \<noteq> Inl OutOfBoundsAccess"
    using assms by (simp add: SaveResults_Builder_hasSturdyRef_def isNull_in_bounds)
  show "SaveResults_Builder_getSturdyRef ph b \<noteq> Inl OutOfBoundsAccess"
    using assms
    by (simp add: SaveResults_Builder_getSturdyRef_def getBuilder_in_bounds
        resolve_not_out_of_bounds_access)
  show "SaveResults_Builder_setSturdyRef b x \<noteq> Inl OutOfBoundsAccess"
    using assms by (simp add: SaveResults_Builder_setSturdyRef_def set_in_bounds)
  show "SaveResults_Builder_initSturdyRef ph b \<noteq> Inl OutOfBoundsAccess"
    using assms
    by (simp add: SaveResults_Builder_initSturdyRef_def PointerHelpers_init_def set_in_bounds)
  show "SaveResults_Builder_initSturdyRef_size ph b n \<noteq> Inl OutOfBoundsAccess"
    using assms
    by (simp add: SaveResults_Builder_initSturdyRef_size_def PointerHelpers_initSized_def
        set_in_bounds)
  show "SaveResults_Builder_adoptSturdyRef b orphan \<noteq> Inl OutOfBoundsAccess"
    using assms
    by (cases orphan)
       (simp add: SaveResults_Builder_adoptSturdyRef_def adopt_in_bounds
          del: PointerHelpers_adopt.simps)
  show "SaveResults_Builder_disownSturdyRef b \<noteq> Inl OutOfBoundsAccess"
    using assms by (simp add: SaveResults_Builder_disownSturdyRef_def disown_in_bounds)
qed

lemma accessorPointerIndex_zero: "accessorPointerIndex s v a = Some i \<Longrightarrow> i = 0"
  by (cases s; cases v; cases a) simp_all

lemma accessorPointerIndex_generated:
  "accessorPointerIndex s V_Reader A_has = Some 0"
  "accessorPointerIndex s V_Reader A_get = Some 0"
  "\<forall>a. accessorPointerIndex s V_Builder a = Some 0"
  "accessorPointerIndex s V_Pipeline A_get = Some 0"
proof -
  show "accessorPointerIndex s V_Reader A_has = Some 0"
    by (cases s) simp_all
  show "accessorPointerIndex s V_Reader A_get = Some 0"
    by (cases s) simp_all
  show "\<forall>a. accessorPointerIndex s V_Builder a = Some 0"
  proof
    fix a
    show "accessorPointerIndex s V_Builder a = Some 0"
      by (cases s; cases a) simp_all
  qed
  show "accessorPointerIndex s V_Pipeline A_get = Some 0"
    by (cases s) simp_all
qed

lemma declaredSize_layout:
  "dataWords (declaredSize s) = 0 \<and> pointerCount (declaredSize s) = 1"
  by (cases s) (simp_all add: SaveParams_structSize_def SaveResults_structSize_def)

text \<open>
  C10. Every accessor the header generates for \<open>SaveParams\<close> and \<open>SaveResults\<close>, on the
  Reader, the Builder and the Pipeline, passes pointer index 0, and both structs are
  declared with 0 data words and 1 pointer word, so the index lies inside the declared
  pointer section; the table has an entry for each generated accessor. Each of the twenty
  accessors is the operation of the runtime applied to
  the slot at that index of the struct it views, and to no other: \<open>has\<close> tests it,
  \<open>get\<close> resolves it, \<open>set\<close>, \<open>init\<close>, \<open>init(size)\<close>, \<open>adopt\<close> and \<open>disown\<close>
  rewrite it, and \<open>get\<close> on the Pipeline extends the path by the step to it. Accordingly,
  on a Builder whose struct has the declared pointer section, none of the Builder accessors
  reaches outside it.
\<close>

theorem accessors_within_declared_layout:
  "(accessorPointerIndex s v a = Some i \<longrightarrow> i = 0 \<and> i < pointerCount (declaredSize s))
   \<and> dataWords (declaredSize s) = 0 \<and> pointerCount (declaredSize s) = 1
   \<and> accessorPointerIndex s V_Reader A_has = Some 0
   \<and> accessorPointerIndex s V_Reader A_get = Some 0
   \<and> (\<forall>a. accessorPointerIndex s V_Builder a = Some 0)
   \<and> accessorPointerIndex s V_Pipeline A_get = Some 0
   \<and> SaveParams_Reader_hasSealFor r =
       (\<not> PointerReader_isNull (StructReader_getPointerField (sp_reader r)
            (the (accessorPointerIndex S_SaveParams V_Reader A_has))))
   \<and> SaveParams_Builder_hasSealFor b =
       map_sum id Not (PointerBuilder_isNull (StructBuilder_getPointerField (sp_builder b)
            (the (accessorPointerIndex S_SaveParams V_Builder A_has))))
   \<and> SaveParams_Reader_getSealFor ph r =
       PointerHelpers_get ph (StructReader_getPointerField (sp_reader r)
            (the (accessorPointerIndex S_SaveParams V_Reader A_get)))
   \<and> SaveParams_Builder_getSealFor ph b =
       PointerHelpers_getBuilder ph (StructBuilder_getPointerField (sp_builder b)
            (the (accessorPointerIndex S_SaveParams V_Builder A_get)))
   \<and> SaveParams_Pipeline_getSealFor p =
       Pipeline_getPointerField (sp_typeless p)
         (of_nat (the (accessorPointerIndex S_SaveParams V_Pipeline A_get)))
   \<and> SaveParams_Builder_setSealFor b x =
       map_sum id SaveParams_Builder (PointerHelpers_set (StructBuilder_getPointerField
            (sp_builder b) (the (accessorPointerIndex S_SaveParams V_Builder A_set))) x)
   \<and> SaveParams_Builder_initSealFor ph b =
       map_sum id SaveParams_Builder (PointerHelpers_init ph (StructBuilder_getPointerField
            (sp_builder b) (the (accessorPointerIndex S_SaveParams V_Builder A_init))))
   \<and> SaveParams_Builder_initSealFor_size ph b n =
       map_sum id SaveParams_Builder (PointerHelpers_initSized ph (StructBuilder_getPointerField
            (sp_builder b) (the (accessorPointerIndex S_SaveParams V_Builder A_init_size))) n)
   \<and> SaveParams_Builder_adoptSealFor b orphan =
       map_sum id SaveParams_Builder (PointerHelpers_adopt (StructBuilder_getPointerField
            (sp_builder b) (the (accessorPointerIndex S_SaveParams V_Builder A_adopt))) orphan)
   \<and> SaveParams_Builder_disownSealFor b =
       map_sum id (map_prod id SaveParams_Builder) (PointerHelpers_disown
            (StructBuilder_getPointerField (sp_builder b)
               (the (accessorPointerIndex S_SaveParams V_Builder A_disown))))
   \<and> SaveResults_Reader_hasSturdyRef q =
       (\<not> PointerReader_isNull (StructReader_getPointerField (sr_reader q)
            (the (accessorPointerIndex S_SaveResults V_Reader A_has))))
   \<and> SaveResults_Builder_hasSturdyRef c =
       map_sum id Not (PointerBuilder_isNull (StructBuilder_getPointerField (sr_builder c)
            (the (accessorPointerIndex S_SaveResults V_Builder A_has))))
   \<and> SaveResults_Reader_getSturdyRef qh q =
       PointerHelpers_get qh (StructReader_getPointerField (sr_reader q)
            (the (accessorPointerIndex S_SaveResults V_Reader A_get)))
   \<and> SaveResults_Builder_getSturdyRef qh c =
       PointerHelpers_getBuilder qh (StructBuilder_getPointerField (sr_builder c)
            (the (accessorPointerIndex S_SaveResults V_Builder A_get)))
   \<and> SaveResults_Pipeline_getSturdyRef pq =
       Pipeline_getPointerField (sr_typeless pq)
         (of_nat (the (accessorPointerIndex S_SaveResults V_Pipeline A_get)))
   \<and> SaveResults_Builder_setSturdyRef c y =
       map_sum id SaveResults_Builder (PointerHelpers_set (StructBuilder_getPointerField
            (sr_builder c) (the (accessorPointerIndex S_SaveResults V_Builder A_set))) y)
   \<and> SaveResults_Builder_initSturdyRef qh c =
       map_sum id SaveResults_Builder (PointerHelpers_init qh (StructBuilder_getPointerField
            (sr_builder c) (the (accessorPointerIndex S_SaveResults V_Builder A_init))))
   \<and> SaveResults_Builder_initSturdyRef_size qh c m =
       map_sum id SaveResults_Builder (PointerHelpers_initSized qh (StructBuilder_getPointerField
            (sr_builder c) (the (accessorPointerIndex S_SaveResults V_Builder A_init_size))) m)
   \<and> SaveResults_Builder_adoptSturdyRef c orphan' =
       map_sum id SaveResults_Builder (PointerHelpers_adopt (StructBuilder_getPointerField
            (sr_builder c) (the (accessorPointerIndex S_SaveResults V_Builder A_adopt))) orphan')
   \<and> SaveResults_Builder_disownSturdyRef c =
       map_sum id (map_prod id SaveResults_Builder) (PointerHelpers_disown
            (StructBuilder_getPointerField (sr_builder c)
               (the (accessorPointerIndex S_SaveResults V_Builder A_disown))))
   \<and> (length (bpointers (sp_builder b)) = pointerCount (declaredSize S_SaveParams) \<longrightarrow>
        SaveParams_Builder_hasSealFor b \<noteq> Inl OutOfBoundsAccess
        \<and> SaveParams_Builder_getSealFor ph b \<noteq> Inl OutOfBoundsAccess
        \<and> SaveParams_Builder_setSealFor b x \<noteq> Inl OutOfBoundsAccess
        \<and> SaveParams_Builder_initSealFor ph b \<noteq> Inl OutOfBoundsAccess
        \<and> SaveParams_Builder_initSealFor_size ph b n \<noteq> Inl OutOfBoundsAccess
        \<and> SaveParams_Builder_adoptSealFor b orphan \<noteq> Inl OutOfBoundsAccess
        \<and> SaveParams_Builder_disownSealFor b \<noteq> Inl OutOfBoundsAccess)
   \<and> (length (bpointers (sr_builder c)) = pointerCount (declaredSize S_SaveResults) \<longrightarrow>
        SaveResults_Builder_hasSturdyRef c \<noteq> Inl OutOfBoundsAccess
        \<and> SaveResults_Builder_getSturdyRef qh c \<noteq> Inl OutOfBoundsAccess
        \<and> SaveResults_Builder_setSturdyRef c y \<noteq> Inl OutOfBoundsAccess
        \<and> SaveResults_Builder_initSturdyRef qh c \<noteq> Inl OutOfBoundsAccess
        \<and> SaveResults_Builder_initSturdyRef_size qh c m \<noteq> Inl OutOfBoundsAccess
        \<and> SaveResults_Builder_adoptSturdyRef c orphan' \<noteq> Inl OutOfBoundsAccess
        \<and> SaveResults_Builder_disownSturdyRef c \<noteq> Inl OutOfBoundsAccess)"
proof -
  have idx: "accessorPointerIndex s v a = Some i \<longrightarrow> i = 0 \<and> i < pointerCount (declaredSize s)"
    using accessorPointerIndex_zero [of s v a i] declaredSize_layout [of s] by simp
  have dw: "dataWords (declaredSize s) = 0" and pc: "pointerCount (declaredSize s) = 1"
    using declaredSize_layout [of s] by simp_all
  have sp: "0 < length (bpointers (sp_builder b))"
    if "length (bpointers (sp_builder b)) = pointerCount (declaredSize S_SaveParams)"
    using that declaredSize_layout [of S_SaveParams] by simp
  have sr: "0 < length (bpointers (sr_builder c))"
    if "length (bpointers (sr_builder c)) = pointerCount (declaredSize S_SaveResults)"
    using that declaredSize_layout [of S_SaveResults] by simp
  have bp: "length (bpointers (sp_builder b)) = pointerCount (declaredSize S_SaveParams) \<longrightarrow>
        SaveParams_Builder_hasSealFor b \<noteq> Inl OutOfBoundsAccess
        \<and> SaveParams_Builder_getSealFor ph b \<noteq> Inl OutOfBoundsAccess
        \<and> SaveParams_Builder_setSealFor b x \<noteq> Inl OutOfBoundsAccess
        \<and> SaveParams_Builder_initSealFor ph b \<noteq> Inl OutOfBoundsAccess
        \<and> SaveParams_Builder_initSealFor_size ph b n \<noteq> Inl OutOfBoundsAccess
        \<and> SaveParams_Builder_adoptSealFor b orphan \<noteq> Inl OutOfBoundsAccess
        \<and> SaveParams_Builder_disownSealFor b \<noteq> Inl OutOfBoundsAccess"
    using SaveParams_Builder_in_bounds [OF sp] by blast
  have br: "length (bpointers (sr_builder c)) = pointerCount (declaredSize S_SaveResults) \<longrightarrow>
        SaveResults_Builder_hasSturdyRef c \<noteq> Inl OutOfBoundsAccess
        \<and> SaveResults_Builder_getSturdyRef qh c \<noteq> Inl OutOfBoundsAccess
        \<and> SaveResults_Builder_setSturdyRef c y \<noteq> Inl OutOfBoundsAccess
        \<and> SaveResults_Builder_initSturdyRef qh c \<noteq> Inl OutOfBoundsAccess
        \<and> SaveResults_Builder_initSturdyRef_size qh c m \<noteq> Inl OutOfBoundsAccess
        \<and> SaveResults_Builder_adoptSturdyRef c orphan' \<noteq> Inl OutOfBoundsAccess
        \<and> SaveResults_Builder_disownSturdyRef c \<noteq> Inl OutOfBoundsAccess"
    using SaveResults_Builder_in_bounds [OF sr] by blast
  show ?thesis
    by (intro conjI idx dw pc bp br accessorPointerIndex_generated
        SaveParams_accessors_at_index SaveResults_accessors_at_index)
qed

theorem accessors_within_declared_layout_witness:
  "accessorPointerIndex S_SaveResults V_Builder A_disown = Some 0
   \<and> (0 :: nat) < pointerCount (declaredSize S_SaveResults)
   \<and> SaveParams_Reader_getSealFor textHelpers (SaveParams_Builder_asReader aliceParams) =
       PointerHelpers_get textHelpers
         (StructReader_getPointerField (sp_reader (SaveParams_Builder_asReader aliceParams)) 0)
   \<and> SaveResults_Pipeline_getSturdyRef pendingResults =
       AnyPointer_Pipeline () [GetPointerField 0]
   \<and> length (bpointers (sp_builder bobParams)) = pointerCount (declaredSize S_SaveParams)
   \<and> SaveParams_Builder_setSealFor bobParams ''alice'' \<noteq> Inl OutOfBoundsAccess
   \<and> length (bpointers (sr_builder savedResults)) = pointerCount (declaredSize S_SaveResults)
   \<and> SaveResults_Builder_disownSturdyRef savedResults \<noteq> Inl OutOfBoundsAccess"
proof -
  have i: "accessorPointerIndex S_SaveResults V_Builder A_disown = Some 0"
    by simp
  have bob: "length (bpointers (sp_builder bobParams)) = pointerCount (declaredSize S_SaveParams)"
    by (simp add: bobParams_def SaveParams_structSize_def)
  have saved:
    "length (bpointers (sr_builder savedResults)) = pointerCount (declaredSize S_SaveResults)"
    by (simp add: savedResults_def SaveResults_structSize_def)
  have pending: "sr_typeless pendingResults = AnyPointer_Pipeline () []"
    by (simp add: pendingResults_def)
  note inst = accessors_within_declared_layout
      [where s = S_SaveResults and v = V_Builder and a = A_disown and i = 0
         and r = "SaveParams_Builder_asReader aliceParams" and ph = textHelpers
         and b = bobParams and x = "''alice''"
         and p = "SaveParams_Pipeline (AnyPointer_Pipeline () [])
                    :: (unit, unit, unit) SaveParams_Pipeline"
         and n = 3 and orphan = "Orphan NullPointer"
         and q = "SaveResults_Builder_asReader savedResults" and qh = textHelpers
         and c = savedResults and y = "''ref:7''" and m = 3 and orphan' = "Orphan NullPointer"
         and pq = pendingResults]
  have idx0: "(0 :: nat) < pointerCount (declaredSize S_SaveResults)"
    using inst i by blast
  have get0: "SaveParams_Reader_getSealFor textHelpers (SaveParams_Builder_asReader aliceParams) =
       PointerHelpers_get textHelpers
         (StructReader_getPointerField (sp_reader (SaveParams_Builder_asReader aliceParams)) 0)"
    using inst by simp
  have pipe0: "SaveResults_Pipeline_getSturdyRef pendingResults =
       AnyPointer_Pipeline () [GetPointerField 0]"
    using inst pending by simp
  have set0: "SaveParams_Builder_setSealFor bobParams ''alice'' \<noteq> Inl OutOfBoundsAccess"
    using inst bob by blast
  have dis0: "SaveResults_Builder_disownSturdyRef savedResults \<noteq> Inl OutOfBoundsAccess"
    using inst saved by blast
  from i idx0 get0 pipe0 bob set0 saved dis0 show ?thesis
    by (intro conjI)
qed

end
